theory Spec2Isabelle
  imports Main
begin

section \<open>Go types and interface values\<close>

text \<open>
  The library keys its handler map by \<^verbatim>\<open>reflect.Type\<close> and receives every dispatched
  value as an \<^verbatim>\<open>any\<close>. A type is a type that is neither a pointer nor an interface
  (its name as \<^verbatim>\<open>%v\<close> prints it, the methods declared with a value receiver and
  those declared with a pointer receiver), a pointer type, or an interface type (its
  method set). Of the first kind, \<open>Named\<close> is a comparable type and \<open>Uncomparable\<close>
  one that is not: a slice, a map, a function, or a struct or array that holds one.
  Defined types whose underlying type is a pointer are left out.
\<close>

datatype gotype =
    Named string "string list" "string list"
  | Uncomparable string "string list" "string list"
  | Ptr gotype
  | Iface "string list"

text \<open>
  A value of type \<^verbatim>\<open>any\<close>: the nil interface, a non-pointer value (dynamic type and
  content), a nil pointer (pointee type), or a pointer (pointee type, address, and what the
  pointed-to variable holds when the library looks at it). The address tells two pointers
  to equal contents apart. \<open>Irregular\<close> is a value of a comparable type that the
  runtime cannot use as a map key like the others: it holds a floating-point NaN, so it
  is not equal to itself, or it holds, behind an interface field, a value of a type that
  is not comparable, so hashing it panics.
\<close>

datatype keyfault = HoldsNaN | HoldsUnhashable

datatype goval =
    Nil
  | Data gotype string
  | NilPtr gotype
  | Pointer gotype nat goval
  | Irregular gotype keyfault string

text \<open>\<^verbatim>\<open>reflect.TypeOf(v)\<close>: nil for the nil interface.\<close>

fun typeOf :: "goval \<Rightarrow> gotype option" where
  "typeOf Nil = None"
| "typeOf (Data t d) = Some t"
| "typeOf (NilPtr t) = Some (Ptr t)"
| "typeOf (Pointer t a c) = Some (Ptr t)"
| "typeOf (Irregular t f d) = Some t"

fun methodSet :: "gotype \<Rightarrow> string list" where
  "methodSet (Named n vm pm) = vm"
| "methodSet (Uncomparable n vm pm) = vm"
| "methodSet (Ptr (Named n vm pm)) = vm @ pm"
| "methodSet (Ptr (Uncomparable n vm pm)) = vm @ pm"
| "methodSet (Ptr t) = []"
| "methodSet (Iface ms) = ms"

text \<open>
  The comma-ok type assertion \<^verbatim>\<open>val, ok := v.(T)\<close>: it fails on the nil interface; for
  an interface type \<open>T\<close> it asks whether the dynamic type implements \<open>T\<close>, for any other
  \<open>T\<close> whether the dynamic type is \<open>T\<close>.
\<close>

fun typeAssert :: "gotype \<Rightarrow> goval \<Rightarrow> goval option" where
  "typeAssert T v =
     (case typeOf v of
        None \<Rightarrow> None
      | Some dt \<Rightarrow>
          (case T of
             Iface ms \<Rightarrow> if set ms \<subseteq> set (methodSet dt) then Some v else None
           | _ \<Rightarrow> if dt = T then Some v else None))"

text \<open>\<^verbatim>\<open>var zero T\<close>, as the value the \<^verbatim>\<open>%T\<close> verb of the diagnostics sees.\<close>

fun zeroValue :: "gotype \<Rightarrow> goval" where
  "zeroValue (Named n vm pm) = Data (Named n vm pm) []"
| "zeroValue (Uncomparable n vm pm) = Data (Uncomparable n vm pm) []"
| "zeroValue (Ptr t) = NilPtr t"
| "zeroValue (Iface ms) = Nil"

text \<open>
  A value is well formed when a non-pointer value has a type that is neither a pointer
  nor an interface (a comparable one when it is irregular) and the variable behind a
  pointer holds what its type allows: a value of exactly the pointee type, or,
  for an interface pointee, nil or a value whose type implements the interface.
\<close>

fun holds :: "gotype \<Rightarrow> goval \<Rightarrow> bool" where
  "holds (Iface ms) c = (c = Nil \<or> typeAssert (Iface ms) c = Some c)"
| "holds t c = (typeOf c = Some t)"

fun wfVal :: "goval \<Rightarrow> bool" where
  "wfVal Nil = True"
| "wfVal (Data t d) =
     (case t of Named n vm pm \<Rightarrow> True | Uncomparable n vm pm \<Rightarrow> True | _ \<Rightarrow> False)"
| "wfVal (NilPtr t) = True"
| "wfVal (Pointer t a c) = (wfVal c \<and> holds t c)"
| "wfVal (Irregular t f d) = (case t of Named n vm pm \<Rightarrow> True | _ \<Rightarrow> False)"

text \<open>
  What the runtime makes of a value used as a key of a \<^verbatim>\<open>map[any]\<close>: hashing panics
  when the dynamic type is not comparable or the value holds one of such a type, and a
  value that holds a NaN is not equal to itself. Every other value hashes and is equal
  to itself; a pointer is hashed by its address.
\<close>

fun hashable :: "goval \<Rightarrow> bool" where
  "hashable (Data (Uncomparable n vm pm) d) = False"
| "hashable (Irregular t HoldsUnhashable d) = False"
| "hashable v = True"

fun selfEqual :: "goval \<Rightarrow> bool" where
  "selfEqual (Irregular t HoldsNaN d) = False"
| "selfEqual v = True"

section \<open>Errors, panics and effects\<close>

text \<open>
  The errors the library builds carry what their messages print. \<open>ErrHandlerNotFound\<close>,
  \<open>ErrFactoryNotFound\<close> and \<open>ErrDataTypeNotSupported\<close> wrap the sentinel of the same
  name; \<open>ErrUnexpectedType\<close> is the unwrapped "expected %T, got %T" of a handler entry;
  \<open>ErrOther\<close> is an error made by a handler, a middleware or a constructor.
\<close>

datatype error =
    ErrHandlerNotFound "gotype option"
  | ErrFactoryNotFound goval
  | ErrDataTypeNotSupported "gotype option" "gotype option"
  | ErrUnexpectedType "gotype option" "gotype option"
  | ErrOther string

text \<open>\<^verbatim>\<open>errors.Is(err, ErrHandlerNotFound)\<close> and its siblings.\<close>

fun isErrHandlerNotFound :: "error \<Rightarrow> bool" where
  "isErrHandlerNotFound (ErrHandlerNotFound t) = True"
| "isErrHandlerNotFound e = False"

fun isErrFactoryNotFound :: "error \<Rightarrow> bool" where
  "isErrFactoryNotFound (ErrFactoryNotFound k) = True"
| "isErrFactoryNotFound e = False"

fun isErrDataTypeNotSupported :: "error \<Rightarrow> bool" where
  "isErrDataTypeNotSupported (ErrDataTypeNotSupported e a) = True"
| "isErrDataTypeNotSupported e = False"

datatype panic =
    NilPointerDereference
  | ReflectElemOfNonPointer
  | ReflectInterfaceOfZeroValue
  | HashOfUnhashableType
  | OtherPanic string

datatype 'a outcome = Returns 'a | Panics panic

text \<open>
  Handlers and middleware act on the caller's world \<open>'s\<close> and get a context \<open>'c\<close>; a call
  either returns its \<^verbatim>\<open>error\<close> (\<open>None\<close> for nil) or panics. Function values are taken
  to be non-nil.
\<close>

type_synonym 's result = "error option outcome \<times> 's"

type_synonym ('c, 's) handlerFunc = "'c \<Rightarrow> goval \<Rightarrow> 's \<Rightarrow> 's result"

type_synonym ('c, 's) middleware = "('c, 's) handlerFunc \<Rightarrow> ('c, 's) handlerFunc"

type_synonym ('c, 's) handlerFuncAny = "'c \<Rightarrow> goval \<Rightarrow> 's \<Rightarrow> 's result"

type_synonym ('c, 's) dispatchMiddleware =
  "'c \<Rightarrow> goval \<Rightarrow> ('c \<Rightarrow> 's \<Rightarrow> 's result) \<Rightarrow> 's \<Rightarrow> 's result"

type_synonym 's created = "(goval \<times> error option) outcome \<times> 's"

type_synonym 's factoryFuncAny = "goval \<Rightarrow> 's \<Rightarrow> 's created"

section \<open>Go maps in a store\<close>

text \<open>
  A Go map is a reference: two variables may name one map, and \<^verbatim>\<open>maps.Clone\<close> makes a
  new one. The store gives each allocated map an address; a map variable is \<open>None\<close>
  (the nil map) or the address of its map.
\<close>

record 'm heap =
  cells :: "nat \<Rightarrow> 'm"
  next_free :: nat

definition heap_alloc :: "'m \<Rightarrow> 'm heap \<Rightarrow> nat \<times> 'm heap" where
  "heap_alloc m hp =
     (next_free hp, hp\<lparr>cells := (cells hp)(next_free hp := m), next_free := Suc (next_free hp)\<rparr>)"

text \<open>\<^verbatim>\<open>v, ok := m[k]\<close>: reading the nil map finds nothing.\<close>

definition map_index :: "('k \<rightharpoonup> 'v) heap \<Rightarrow> nat option \<Rightarrow> 'k \<Rightarrow> 'v option" where
  "map_index hp m k = (case m of None \<Rightarrow> None | Some a \<Rightarrow> cells hp a k)"

text \<open>\<^verbatim>\<open>m[k] = v\<close> on a map that is not nil.\<close>

definition map_assign :: "('k \<rightharpoonup> 'v) heap \<Rightarrow> nat \<Rightarrow> 'k \<Rightarrow> 'v \<Rightarrow> ('k \<rightharpoonup> 'v) heap" where
  "map_assign hp a k v = hp\<lparr>cells := (cells hp)(a := (cells hp a)(k \<mapsto> v))\<rparr>"

text \<open>\<^verbatim>\<open>maps.Clone(m)\<close>: nil stays nil, any other map is copied into a new one.\<close>

definition maps_Clone :: "('k \<rightharpoonup> 'v) heap \<Rightarrow> nat option \<Rightarrow> nat option \<times> ('k \<rightharpoonup> 'v) heap" where
  "maps_Clone hp m =
     (case m of
        None \<Rightarrow> (None, hp)
      | Some a \<Rightarrow> (case heap_alloc (cells hp a) hp of (b, hp') \<Rightarrow> (Some b, hp')))"

text \<open>
  The same two operations on a \<^verbatim>\<open>map[any]\<close>, whose key the runtime hashes first:
  both panic on a key that cannot be hashed, the read also on the nil and on the empty
  map. A key that is not equal to itself is never found; a write under it adds an entry
  that no read finds, so what the map answers does not change.
\<close>

definition any_map_index ::
  "(goval \<rightharpoonup> 'v) heap \<Rightarrow> nat option \<Rightarrow> goval \<Rightarrow> 'v option outcome" where
  "any_map_index hp m k =
     (if \<not> hashable k then Panics HashOfUnhashableType
      else if \<not> selfEqual k then Returns None
      else Returns (map_index hp m k))"

definition any_map_assign ::
  "(goval \<rightharpoonup> 'v) heap \<Rightarrow> nat \<Rightarrow> goval \<Rightarrow> 'v \<Rightarrow> (goval \<rightharpoonup> 'v) heap outcome" where
  "any_map_assign hp a k v =
     (if \<not> hashable k then Panics HashOfUnhashableType
      else if \<not> selfEqual k then Returns hp
      else Returns (map_assign hp a k v))"

section \<open>The dispatch registry\<close>

text \<open>
  The handler map is keyed by \<^verbatim>\<open>reflect.Type\<close>, an interface that may be nil; the
  locks are not modelled.
\<close>

type_synonym ('c, 's) handlerMaps = "(gotype option \<rightharpoonup> ('c, 's) handlerFuncAny) heap"

record DispatchRegistry =
  reg_h :: "nat option"

record SealedDispatchRegistry =
  sealed_h :: "nat option"

datatype dispatcher = Mutable DispatchRegistry | Sealed SealedDispatchRegistry

definition NewDispatchRegistry ::
  "('c, 's) handlerMaps \<Rightarrow> DispatchRegistry \<times> ('c, 's) handlerMaps" where
  "NewDispatchRegistry hp =
     (case heap_alloc Map.empty hp of (a, hp') \<Rightarrow> (\<lparr>reg_h = Some a\<rparr>, hp'))"

definition registerDispatch ::
  "DispatchRegistry \<Rightarrow> gotype option \<Rightarrow> ('c, 's) handlerFuncAny \<Rightarrow> ('c, 's) handlerMaps
     \<Rightarrow> DispatchRegistry \<times> ('c, 's) handlerMaps" where
  "registerDispatch r typ funcAny hp =
     (case reg_h r of
        None \<Rightarrow>
          (case heap_alloc Map.empty hp of
             (a, hp') \<Rightarrow> (r\<lparr>reg_h := Some a\<rparr>, map_assign hp' a typ funcAny))
      | Some a \<Rightarrow> (r, map_assign hp a typ funcAny))"

definition Seal ::
  "DispatchRegistry \<Rightarrow> ('c, 's) handlerMaps \<Rightarrow> SealedDispatchRegistry \<times> ('c, 's) handlerMaps" where
  "Seal r hp = (case maps_Clone hp (reg_h r) of (m, hp') \<Rightarrow> (\<lparr>sealed_h = m\<rparr>, hp'))"

text \<open>\<^verbatim>\<open>reflect.ValueOf(v).Elem().Interface()\<close>.\<close>

fun elemInterface :: "goval \<Rightarrow> goval outcome" where
  "elemInterface Nil = Panics ReflectElemOfNonPointer"
| "elemInterface (Data t d) = Panics ReflectElemOfNonPointer"
| "elemInterface (NilPtr t) = Panics ReflectInterfaceOfZeroValue"
| "elemInterface (Pointer t a c) = Returns c"
| "elemInterface (Irregular t f d) = Panics ReflectElemOfNonPointer"

definition call ::
  "gotype option \<Rightarrow> 'c \<Rightarrow> goval \<Rightarrow> ('c, 's) handlerMaps \<Rightarrow> nat option \<Rightarrow> 's \<Rightarrow> 's result" where
  "call typ ctx v hp h s =
     (case map_index hp h typ of
        Some handler \<Rightarrow> handler ctx v s
      | None \<Rightarrow>
          (case typ of
             None \<Rightarrow> (Panics NilPointerDereference, s)
           | Some (Ptr e) \<Rightarrow>
               (case map_index hp h (Some e) of
                  Some handler \<Rightarrow>
                    (case elemInterface v of
                       Panics p \<Rightarrow> (Panics p, s)
                     | Returns d \<Rightarrow> handler ctx d s)
                | None \<Rightarrow> (Returns (Some (ErrHandlerNotFound typ)), s))
           | Some t \<Rightarrow> (Returns (Some (ErrHandlerNotFound typ)), s)))"

fun dispatcher_call ::
  "dispatcher \<Rightarrow> ('c, 's) handlerMaps \<Rightarrow> gotype option \<Rightarrow> 'c \<Rightarrow> goval \<Rightarrow> 's \<Rightarrow> 's result" where
  "dispatcher_call (Mutable r) hp typ ctx v s = call typ ctx v hp (reg_h r) s"
| "dispatcher_call (Sealed r) hp typ ctx v s = call typ ctx v hp (sealed_h r) s"

section \<open>Dispatch and registration\<close>

text \<open>
  The loop of \<^verbatim>\<open>Dispatch\<close> runs \<open>i\<close> from \<open>len(middleware) - 1\<close> down to \<open>0\<close>; the
  counter here is \<open>i + 1\<close>.
\<close>

fun wrapCall ::
  "nat \<Rightarrow> ('c, 's) dispatchMiddleware list \<Rightarrow> goval \<Rightarrow> ('c \<Rightarrow> 's \<Rightarrow> 's result)
     \<Rightarrow> ('c \<Rightarrow> 's \<Rightarrow> 's result)" where
  "wrapCall 0 middleware v next = next"
| "wrapCall (Suc i) middleware v next =
     wrapCall i middleware v (\<lambda>ctx. (middleware ! i) ctx v next)"

definition Dispatch ::
  "('c, 's) handlerMaps \<Rightarrow> dispatcher \<Rightarrow> 'c \<Rightarrow> goval \<Rightarrow> ('c, 's) dispatchMiddleware list
     \<Rightarrow> 's \<Rightarrow> 's result" where
  "Dispatch hp disp ctx v middleware s =
     (let typ = typeOf v in
      if length middleware = 0 then dispatcher_call disp hp typ ctx v s
      else wrapCall (length middleware) middleware v
             (\<lambda>ctx. dispatcher_call disp hp typ ctx v) ctx s)"

fun applyLoop ::
  "nat \<Rightarrow> ('c, 's) middleware list \<Rightarrow> ('c, 's) handlerFunc \<Rightarrow> ('c, 's) handlerFunc" where
  "applyLoop 0 middleware final = final"
| "applyLoop (Suc i) middleware final = applyLoop i middleware ((middleware ! i) final)"

definition applyMiddleware ::
  "('c, 's) handlerFunc \<Rightarrow> ('c, 's) middleware list \<Rightarrow> ('c, 's) handlerFunc" where
  "applyMiddleware base middleware = applyLoop (length middleware) middleware base"

definition wrapTypedHandler :: "gotype \<Rightarrow> ('c, 's) handlerFunc \<Rightarrow> ('c, 's) handlerFuncAny" where
  "wrapTypedHandler T h =
     (\<lambda>ctx v s.
        case typeAssert T v of
          None \<Rightarrow> (Returns (Some (ErrUnexpectedType (typeOf (zeroValue T)) (typeOf v))), s)
        | Some val \<Rightarrow> h ctx val s)"

text \<open>
  \<^verbatim>\<open>RegisterDispatch[T]\<close>: the key \<^verbatim>\<open>reflect.TypeOf((*T)(nil)).Elem()\<close> is the type
  \<open>T\<close> itself, an interface type included.
\<close>

definition RegisterDispatch ::
  "gotype \<Rightarrow> DispatchRegistry \<Rightarrow> ('c, 's) handlerFunc \<Rightarrow> ('c, 's) middleware list
     \<Rightarrow> ('c, 's) handlerMaps \<Rightarrow> DispatchRegistry \<times> ('c, 's) handlerMaps" where
  "RegisterDispatch T reg handler middleware hp =
     (let typ = Some T;
          finalTyped = applyMiddleware handler middleware
      in registerDispatch reg typ (wrapTypedHandler T finalTyped) hp)"

section \<open>The factory registry\<close>

text \<open>
  The factory map is a \<^verbatim>\<open>map[any]\<close>. The \<^verbatim>\<open>comparable\<close> constraint on \<open>KEY\<close> lets an
  interface type through, so a key may be of any dynamic type. A write or a read that
  panics leaves the registry as it was at that point: the map that a write made for a nil
  field stays.
\<close>

type_synonym 's factoryMaps = "(goval \<rightharpoonup> 's factoryFuncAny) heap"

record FactoryRegistry =
  factories :: "nat option"

record SealedFactoryRegistry =
  sealed_factories :: "nat option"

datatype factoryResolver = MutableF FactoryRegistry | SealedF SealedFactoryRegistry

definition NewFactoryRegistry :: "'s factoryMaps \<Rightarrow> FactoryRegistry \<times> 's factoryMaps" where
  "NewFactoryRegistry hp =
     (case heap_alloc Map.empty hp of (a, hp') \<Rightarrow> (\<lparr>factories = Some a\<rparr>, hp'))"

definition registerFactory ::
  "FactoryRegistry \<Rightarrow> goval \<Rightarrow> 's factoryFuncAny \<Rightarrow> 's factoryMaps
     \<Rightarrow> unit outcome \<times> FactoryRegistry \<times> 's factoryMaps" where
  "registerFactory r key factory hp =
     (case (case factories r of
              None \<Rightarrow>
                (case heap_alloc Map.empty hp of (a, hp') \<Rightarrow> (a, r\<lparr>factories := Some a\<rparr>, hp'))
            | Some a \<Rightarrow> (a, r, hp)) of
        (a, r1, hp1) \<Rightarrow>
          (case any_map_assign hp1 a key factory of
             Panics p \<Rightarrow> (Panics p, r1, hp1)
           | Returns hp2 \<Rightarrow> (Returns (), r1, hp2)))"

fun getFactory ::
  "factoryResolver \<Rightarrow> 's factoryMaps \<Rightarrow> goval \<Rightarrow> 's factoryFuncAny option outcome" where
  "getFactory (MutableF r) hp key = any_map_index hp (factories r) key"
| "getFactory (SealedF r) hp key = any_map_index hp (sealed_factories r) key"

definition SealF ::
  "FactoryRegistry \<Rightarrow> 's factoryMaps \<Rightarrow> SealedFactoryRegistry \<times> 's factoryMaps" where
  "SealF r hp =
     (case maps_Clone hp (factories r) of (m, hp') \<Rightarrow> (\<lparr>sealed_factories = m\<rparr>, hp'))"

text \<open>
  \<^verbatim>\<open>RegisterFactory[KEY, DATA, T]\<close> stores a closure that narrows the data to \<open>DATA\<close>
  before it calls the constructor.
\<close>

definition RegisterFactory ::
  "gotype \<Rightarrow> FactoryRegistry \<Rightarrow> goval \<Rightarrow> 's factoryFuncAny \<Rightarrow> 's factoryMaps
     \<Rightarrow> unit outcome \<times> FactoryRegistry \<times> 's factoryMaps" where
  "RegisterFactory DATA reg key factory hp =
     registerFactory reg key
       (\<lambda>data s.
          case typeAssert DATA data of
            None \<Rightarrow>
              (Returns
                 (Nil, Some (ErrDataTypeNotSupported (typeOf (zeroValue DATA)) (typeOf data))),
               s)
          | Some d \<Rightarrow> factory d s)
       hp"

definition CreateType ::
  "'s factoryMaps \<Rightarrow> factoryResolver \<Rightarrow> goval \<Rightarrow> goval \<Rightarrow> 's \<Rightarrow> 's created" where
  "CreateType hp reg key data s =
     (case getFactory reg hp key of
        Panics p \<Rightarrow> (Panics p, s)
      | Returns None \<Rightarrow> (Returns (Nil, Some (ErrFactoryNotFound key)), s)
      | Returns (Some factory) \<Rightarrow> factory data s)"

section \<open>Vocabulary of the statements\<close>

text \<open>The map a dispatcher reads: both \<^verbatim>\<open>call\<close> methods hand their field to \<open>call\<close>.\<close>

fun dispatcher_h :: "dispatcher \<Rightarrow> nat option" where
  "dispatcher_h (Mutable r) = reg_h r"
| "dispatcher_h (Sealed r) = sealed_h r"


text \<open>
  The middleware of the tests: act, call \<open>next\<close>, act again, return what \<open>next\<close>
  returned. A panic of \<open>next\<close> unwinds through it.
\<close>

definition around :: "('s \<Rightarrow> 's) \<Rightarrow> ('s \<Rightarrow> 's) \<Rightarrow> ('c, 's) dispatchMiddleware" where
  "around before after =
     (\<lambda>ctx event next s.
        case next ctx (before s) of
          (Returns err, s') \<Rightarrow> (Returns err, after s')
        | (Panics p, s') \<Rightarrow> (Panics p, s'))"

definition aroundTyped :: "('s \<Rightarrow> 's) \<Rightarrow> ('s \<Rightarrow> 's) \<Rightarrow> ('c, 's) middleware" where
  "aroundTyped before after =
     (\<lambda>next ctx val s.
        case next ctx val (before s) of
          (Returns err, s') \<Rightarrow> (Returns err, after s')
        | (Panics p, s') \<Rightarrow> (Panics p, s'))"

text \<open>\<^verbatim>\<open>order = append(order, x)\<close>, and the handler of the tests that does only that.\<close>

definition says :: "string \<Rightarrow> string list \<Rightarrow> string list" where
  "says x order = order @ [x]"

definition sayingHandler :: "string \<Rightarrow> (unit, string list) handlerFunc" where
  "sayingHandler x = (\<lambda>ctx e order. (Returns None, says x order))"



text \<open>A map variable of a running program is nil or names a map that has been made.\<close>

definition allocated :: "nat option \<Rightarrow> 'm heap \<Rightarrow> bool" where
  "allocated m hp = (case m of None \<Rightarrow> True | Some a \<Rightarrow> a < next_free hp)"

text \<open>
  What \<open>registerDispatch\<close> does to its map field, and \<open>registerFactory\<close> under a key
  that hashes and is equal to itself: make the map if it is nil, then write.
\<close>

definition assignLazy ::
  "nat option \<Rightarrow> 'k \<Rightarrow> 'v \<Rightarrow> ('k \<rightharpoonup> 'v) heap \<Rightarrow> nat option \<times> ('k \<rightharpoonup> 'v) heap" where
  "assignLazy m k v hp =
     (case m of
        None \<Rightarrow> (case heap_alloc Map.empty hp of (a, hp') \<Rightarrow> (Some a, map_assign hp' a k v))
      | Some a \<Rightarrow> (Some a, map_assign hp a k v))"

text \<open>The store of a program that has made no map yet, and the types of the tests.\<close>

definition emptyStore :: "('k \<rightharpoonup> 'v) heap" where
  "emptyStore = \<lparr>cells = (\<lambda>a. Map.empty), next_free = 0\<rparr>"

definition testEvent :: gotype where
  "testEvent = Named ''testEvent'' [] []"

definition stringT :: gotype where
  "stringT = Named ''string'' [] []"

definition bytesT :: gotype where
  "bytesT = Uncomparable ''[]uint8'' [] []"

definition float64T :: gotype where
  "float64T = Named ''float64'' [] []"

definition anyT :: gotype where
  "anyT = Iface []"

definition userCreated :: gotype where
  "userCreated = Named ''UserCreated'' [] []"

text \<open>The constructors of the tests: they ignore the data and return a fixed record.\<close>

definition constFactory :: "string \<Rightarrow> 's factoryFuncAny" where
  "constFactory x = (\<lambda>data s. (Returns (Data userCreated x, None), s))"

text \<open>The handler of the pointer tests: it notes the content of the value it received.\<close>

definition receivedName :: "(unit, string list) handlerFunc" where
  "receivedName =
     (\<lambda>ctx e order. case e of Data t d \<Rightarrow> (Returns None, says d order)
                       | _ \<Rightarrow> (Returns None, says ''not a value'' order))"

lemmas store_defs =
  emptyStore_def NewDispatchRegistry_def NewFactoryRegistry_def heap_alloc_def map_assign_def
  map_index_def maps_Clone_def registerDispatch_def registerFactory_def Seal_def SealF_def
  RegisterDispatch_def RegisterFactory_def allocated_def any_map_index_def any_map_assign_def

lemmas run_defs =
  Dispatch_def call_def CreateType_def wrapTypedHandler_def applyMiddleware_def
  sayingHandler_def says_def constFactory_def

lemmas type_defs =
  testEvent_def stringT_def bytesT_def float64T_def anyT_def userCreated_def

section \<open>Middleware chains\<close>

text \<open>Which sentinel each error the library builds matches.\<close>

lemma built_errors_match:
  "isErrHandlerNotFound (ErrHandlerNotFound t)
   \<and> isErrFactoryNotFound (ErrFactoryNotFound k)
   \<and> isErrDataTypeNotSupported (ErrDataTypeNotSupported e a)
   \<and> \<not> isErrHandlerNotFound (ErrUnexpectedType e a)
   \<and> \<not> isErrDataTypeNotSupported (ErrUnexpectedType e a)"
  by simp

lemma dispatcher_call_h:
  "dispatcher_call disp hp typ ctx v s = call typ ctx v hp (dispatcher_h disp) s"
  by (cases disp) simp_all

lemma wrapCall_take:
  "n \<le> length mws \<Longrightarrow>
   wrapCall n mws v nxt = foldr (\<lambda>mw nx ctx. mw ctx v nx) (take n mws) nxt"
proof (induction n arbitrary: nxt)
  case 0
  show ?case by simp
next
  case (Suc n)
  then have lt: "n < length mws" by simp
  have "wrapCall (Suc n) mws v nxt = wrapCall n mws v (\<lambda>ctx. (mws ! n) ctx v nxt)"
    by simp
  also have "\<dots> = foldr (\<lambda>mw nx ctx. mw ctx v nx) (take n mws) (\<lambda>ctx. (mws ! n) ctx v nxt)"
    using Suc.IH lt by simp
  also have "\<dots> = foldr (\<lambda>mw nx ctx. mw ctx v nx) (take (Suc n) mws) nxt"
    using lt by (simp add: take_Suc_conv_app_nth)
  finally show ?case .
qed

lemma applyLoop_take:
  "n \<le> length mws \<Longrightarrow> applyLoop n mws final = foldr (\<lambda>m g. m g) (take n mws) final"
proof (induction n arbitrary: final)
  case 0
  show ?case by simp
next
  case (Suc n)
  then have lt: "n < length mws" by simp
  then show ?case using Suc.IH [of "(mws ! n) final"]
    by (simp add: take_Suc_conv_app_nth)
qed

lemma applyMiddleware_foldr: "applyMiddleware base mws = foldr (\<lambda>m g. m g) mws base"
  by (simp add: applyMiddleware_def applyLoop_take)

lemma Dispatch_foldr:
  "Dispatch hp disp ctx v mws s =
     foldr (\<lambda>mw nx ctx. mw ctx v nx) mws (\<lambda>ctx. dispatcher_call disp hp (typeOf v) ctx v) ctx s"
  by (cases mws) (simp_all add: Dispatch_def wrapCall_take del: wrapCall.simps)

lemma Dispatch_no_middleware:
  "Dispatch hp disp ctx v [] s = call (typeOf v) ctx v hp (dispatcher_h disp) s"
  by (simp add: Dispatch_def dispatcher_call_h)

lemma call_exact:
  "map_index hp h typ = Some e \<Longrightarrow> call typ ctx v hp h s = e ctx v s"
  by (simp add: call_def)

section \<open>Writes to a map field\<close>

lemma registerDispatch_assignLazy:
  "registerDispatch r typ f hp =
     (r\<lparr>reg_h := fst (assignLazy (reg_h r) typ f hp)\<rparr>, snd (assignLazy (reg_h r) typ f hp))"
  by (simp add: registerDispatch_def assignLazy_def split: option.splits prod.splits)

lemma registerFactory_regular:
  "hashable key \<Longrightarrow> selfEqual key \<Longrightarrow>
   registerFactory r key f hp =
     (Returns (), r\<lparr>factories := fst (assignLazy (factories r) key f hp)\<rparr>,
      snd (assignLazy (factories r) key f hp))"
  by (simp add: registerFactory_def any_map_assign_def assignLazy_def
      split: option.splits prod.splits)

lemma registerFactory_returns:
  "hashable key \<Longrightarrow> registerFactory r key f hp = (out, r', hp') \<Longrightarrow> out = Returns ()"
  by (auto simp: registerFactory_def any_map_assign_def
      split: option.splits prod.splits if_splits)

lemma registerFactory_not_nil:
  "registerFactory r key f hp = (out, r', hp') \<Longrightarrow>
   factories r' \<noteq> None \<and> (factories r = None \<longrightarrow> factories r' = Some (next_free hp))"
  by (auto simp: registerFactory_def any_map_assign_def heap_alloc_def
      split: option.splits prod.splits if_splits)




lemma assignLazy_lookup:
  "assignLazy m k v hp = (m', hp') \<Longrightarrow>
   map_index hp' m' k' = (if k' = k then Some v else map_index hp m k')"
  by (auto simp: assignLazy_def heap_alloc_def map_assign_def map_index_def
      split: option.splits)

lemma assignLazy_not_nil: "assignLazy m k v hp = (m', hp') \<Longrightarrow> m' \<noteq> None"
  by (auto simp: assignLazy_def heap_alloc_def split: option.splits)

lemma assignLazy_fresh:
  "assignLazy None k v hp = (m', hp') \<Longrightarrow>
   m' = Some (next_free hp) \<and> cells hp' (next_free hp) = [k \<mapsto> v]"
  by (auto simp: assignLazy_def heap_alloc_def map_assign_def)


lemma registerDispatch_lookup:
  "registerDispatch r typ f hp = (r', hp') \<Longrightarrow>
   map_index hp' (reg_h r') k = (if k = typ then Some f else map_index hp (reg_h r) k)"
  using assignLazy_lookup [of "reg_h r" "typ" f hp "reg_h r'" hp' k]
  by (auto simp: registerDispatch_assignLazy)

lemma registerFactory_lookup:
  assumes "hashable key" "selfEqual key" "registerFactory r key f hp = (out, r', hp')"
  shows "map_index hp' (factories r') k
           = (if k = key then Some f else map_index hp (factories r) k)"
  using assignLazy_lookup [of "factories r" key f hp "factories r'" hp' k] assms
  by (auto simp: registerFactory_regular)

lemma typeAssert_exact: "typeOf v = Some T \<Longrightarrow> typeAssert T v = Some v"
  by (cases T) simp_all

lemma RegisterDispatch_entry:
  "RegisterDispatch T reg H mws hp = (reg', hp') \<Longrightarrow>
   map_index hp' (reg_h reg') (Some T) = Some (wrapTypedHandler T (foldr (\<lambda>m g. m g) mws H))"
  by (simp add: RegisterDispatch_def registerDispatch_lookup applyMiddleware_foldr)

section \<open>Snapshots and frames\<close>






lemma call_not_found:
  assumes "map_index hp h (Some t) = None" "\<forall>e. t = Ptr e \<longrightarrow> map_index hp h (Some e) = None"
  shows "call (Some t) ctx v hp h s = (Returns (Some (ErrHandlerNotFound (Some t))), s)"
  using assms by (cases t) (simp_all add: call_def)

section \<open>Resolution\<close>

lemma call_fallback:
  assumes "map_index hp h (Some (Ptr T)) = None" "map_index hp h (Some T) = Some e"
  shows "call (Some (Ptr T)) ctx (Pointer T a c) hp h s = e ctx c s"
  using assms by (simp add: call_def)

lemma holds_typeAssert: "holds T c \<Longrightarrow> c \<noteq> Nil \<Longrightarrow> typeAssert T c = Some c"
  by (cases T) auto

lemma holds_concrete: "holds T c \<Longrightarrow> \<forall>ms. T \<noteq> Iface ms \<Longrightarrow> typeOf c = Some T"
  by (cases T) auto


section \<open>Middleware order\<close>

text \<open>
  C3. For any list of cross-cutting middleware, \<open>Dispatch\<close> wraps the base call (the
  resolution of the value's type to a handler) with the middleware from the last to the
  first, so the first runs outermost. With the list \<open>[A, B]\<close> of middleware that act before
  and after \<open>next\<close> the world sees A-before, B-before, the base call, B-after, A-after,
  and the base call is the handler \<open>H\<close> registered for the value's type; with the empty
  list \<open>H\<close> is called directly.
\<close>

theorem Dispatch_middleware_order:
  "Dispatch hp disp ctx v mws s =
     foldr (\<lambda>mw nx ctx. mw ctx v nx) mws
       (\<lambda>ctx. call (typeOf v) ctx v hp (dispatcher_h disp)) ctx s
   \<and> Dispatch hp disp ctx v [around bA aA, around bB aB] s =
       (case call (typeOf v) ctx v hp (dispatcher_h disp) (bB (bA s)) of
          (Returns err, s') \<Rightarrow> (Returns err, aA (aB s'))
        | (Panics p, s') \<Rightarrow> (Panics p, s'))
   \<and> Dispatch hp disp ctx v [] s = call (typeOf v) ctx v hp (dispatcher_h disp) s
   \<and> (map_index hp (dispatcher_h disp) (typeOf v) = Some H \<longrightarrow>
        Dispatch hp disp ctx v [around bA aA, around bB aB] s =
          (case H ctx v (bB (bA s)) of
             (Returns err, s') \<Rightarrow> (Returns err, aA (aB s'))
           | (Panics p, s') \<Rightarrow> (Panics p, s'))
        \<and> Dispatch hp disp ctx v [] s = H ctx v s)"
proof -
  let ?base = "\<lambda>ctx. call (typeOf v) ctx v hp (dispatcher_h disp)"
  have base: "(\<lambda>ctx. dispatcher_call disp hp (typeOf v) ctx v) = ?base"
    by (simp add: dispatcher_call_h fun_eq_iff)
  have chain: "Dispatch hp disp ctx v ms s = foldr (\<lambda>mw nx ctx. mw ctx v nx) ms ?base ctx s"
    for ms
    by (simp only: Dispatch_foldr base)
  have two: "Dispatch hp disp ctx v [around bA aA, around bB aB] s =
       (case ?base ctx (bB (bA s)) of
          (Returns err, s') \<Rightarrow> (Returns err, aA (aB s'))
        | (Panics p, s') \<Rightarrow> (Panics p, s'))"
    by (simp add: chain around_def split: prod.splits outcome.splits)
  have none: "Dispatch hp disp ctx v [] s = ?base ctx s"
    by (simp add: chain)
  have exact: "?base c' s' = H c' v s'"
    if "map_index hp (dispatcher_h disp) (typeOf v) = Some H" for c' s'
    using that by (simp add: call_exact)
  show ?thesis
    using chain [of mws] two none exact by simp
qed

theorem Dispatch_middleware_order_witness:
  "(case RegisterDispatch testEvent \<lparr>reg_h = None\<rparr> (sayingHandler ''handler'') [] emptyStore of
      (reg, hp) \<Rightarrow>
        map_index hp (dispatcher_h (Mutable reg)) (typeOf (Data testEvent ''test''))
          = Some (wrapTypedHandler testEvent (sayingHandler ''handler''))
        \<and> Dispatch hp (Mutable reg) () (Data testEvent ''test'')
            [around (says ''mw1-before'') (says ''mw1-after''),
             around (says ''mw2-before'') (says ''mw2-after'')] []
          = (Returns None,
             [''mw1-before'', ''mw2-before'', ''handler'', ''mw2-after'', ''mw1-after''])
        \<and> Dispatch hp (Mutable reg) () (Data testEvent ''test'') [] []
          = (Returns None, [''handler'']))"
proof -
  let ?rc = "RegisterDispatch testEvent \<lparr>reg_h = None\<rparr> (sayingHandler ''handler'') []
      emptyStore"
  have e: "map_index (snd ?rc) (dispatcher_h (Mutable (fst ?rc)))
             (typeOf (Data testEvent ''test''))
           = Some (wrapTypedHandler testEvent (sayingHandler ''handler''))"
    using RegisterDispatch_entry [of testEvent "\<lparr>reg_h = None\<rparr>" "sayingHandler ''handler''"
        "[]" emptyStore "fst ?rc" "snd ?rc"]
    by simp
  show ?thesis
    using e Dispatch_middleware_order [where hp = "snd ?rc" and disp = "Mutable (fst ?rc)"
        and v = "Data testEvent ''test''" and ctx = "()" and s = "[]" and mws = "[]"
        and H = "wrapTypedHandler testEvent (sayingHandler ''handler'')"
        and bA = "says ''mw1-before''" and aA = "says ''mw1-after''"
        and bB = "says ''mw2-before''" and aB = "says ''mw2-after''"]
    by (simp add: store_defs run_defs type_defs around_def case_prod_beta)
qed

text \<open>
  C4. The entry that \<open>RegisterDispatch\<close> stores for \<open>T\<close> composes the typed middleware
  around the handler with the first listed outermost. Dispatching a value of type \<open>T\<close>
  with the list \<open>[M1, M2]\<close> of middleware that act before and after \<open>next\<close> runs
  M1-before, M2-before, \<open>H\<close>, M2-after, M1-after.
\<close>

theorem typed_middleware_order:
  assumes "RegisterDispatch T reg H mws hp = (reg', hp')" and "typeOf v = Some T"
  shows "map_index hp' (reg_h reg') (Some T)
           = Some (wrapTypedHandler T (foldr (\<lambda>m g. m g) mws H))
       \<and> Dispatch hp' (Mutable reg') ctx v [] s = foldr (\<lambda>m g. m g) mws H ctx v s
       \<and> (mws = [aroundTyped b1 a1, aroundTyped b2 a2] \<longrightarrow>
            Dispatch hp' (Mutable reg') ctx v [] s =
              (case H ctx v (b2 (b1 s)) of
                 (Returns err, s') \<Rightarrow> (Returns err, a1 (a2 s'))
               | (Panics p, s') \<Rightarrow> (Panics p, s')))"
proof -
  let ?F = "foldr (\<lambda>m g. m g) mws H"
  have entry: "map_index hp' (reg_h reg') (Some T) = Some (wrapTypedHandler T ?F)"
    using assms(1) by (rule RegisterDispatch_entry)
  have run: "Dispatch hp' (Mutable reg') ctx v [] s = ?F ctx v s"
    using entry assms(2)
    by (simp add: Dispatch_no_middleware call_exact wrapTypedHandler_def typeAssert_exact
        del: typeAssert.simps)
  show ?thesis
    using entry run
    by (auto simp: aroundTyped_def split: prod.splits outcome.splits)
qed

theorem typed_middleware_order_witness:
  "(case RegisterDispatch testEvent \<lparr>reg_h = None\<rparr> (sayingHandler ''H'')
           [aroundTyped (says ''M1-before'') (says ''M1-after''),
            aroundTyped (says ''M2-before'') (says ''M2-after'')] emptyStore of
      (reg, hp) \<Rightarrow>
        Dispatch hp (Mutable reg) () (Data testEvent ''test'') [] []
        = (Returns None, [''M1-before'', ''M2-before'', ''H'', ''M2-after'', ''M1-after'']))"
proof -
  let ?mws = "[aroundTyped (says ''M1-before'') (says ''M1-after''),
            aroundTyped (says ''M2-before'') (says ''M2-after'')]
            :: (unit, string list) middleware list"
  let ?rc = "RegisterDispatch testEvent \<lparr>reg_h = None\<rparr> (sayingHandler ''H'') ?mws emptyStore"
  have r: "?rc = (fst ?rc, snd ?rc)" by simp
  have t: "typeOf (Data testEvent ''test'') = Some testEvent" by simp
  show ?thesis
    using typed_middleware_order [OF r t, of "()" "[]" "says ''M1-before''" "says ''M1-after''"
        "says ''M2-before''" "says ''M2-after''"]
    by (simp add: sayingHandler_def says_def aroundTyped_def case_prod_beta)
qed

section \<open>Registration\<close>

text \<open>
  C9. \<open>registerDispatch\<close> has no failure: from every registry state it leaves a map
  that is not nil and holds the entry, which the next lookup or dispatch finds, and every
  other key answers as before. \<open>registerFactory\<close> leaves a map that is not nil from
  every registry state and returns, without a panic, under every key that the runtime can
  hash; under a key that is also equal to itself the next lookup and create find the
  entry and every other key answers as before. On a registry whose map is nil the write
  first makes a new map, which then holds exactly the entry.
\<close>

theorem register_always_succeeds:
  "(case registerDispatch r ty f hp of
      (r', hp') \<Rightarrow>
        reg_h r' \<noteq> None
        \<and> map_index hp' (reg_h r') ty = Some f
        \<and> (\<forall>k. k \<noteq> ty \<longrightarrow> map_index hp' (reg_h r') k = map_index hp (reg_h r) k)
        \<and> call ty ctx v hp' (reg_h r') s = f ctx v s
        \<and> (reg_h r = None \<longrightarrow>
             reg_h r' = Some (next_free hp) \<and> cells hp' (next_free hp) = [ty \<mapsto> f]))
   \<and> (case registerFactory fr key g fhp of
      (out, fr', fhp') \<Rightarrow>
        factories fr' \<noteq> None
        \<and> (factories fr = None \<longrightarrow> factories fr' = Some (next_free fhp))
        \<and> (hashable key \<longrightarrow> out = Returns ())
        \<and> (hashable key \<and> selfEqual key \<longrightarrow>
             getFactory (MutableF fr') fhp' key = Returns (Some g)
             \<and> (\<forall>k. k \<noteq> key \<longrightarrow>
                  getFactory (MutableF fr') fhp' k = getFactory (MutableF fr) fhp k)
             \<and> CreateType fhp' (MutableF fr') key data s2 = g data s2
             \<and> (factories fr = None \<longrightarrow> cells fhp' (next_free fhp) = [key \<mapsto> g])))"
proof -
  obtain m hp' where a: "assignLazy (reg_h r) ty f hp = (m, hp')"
    by (cases "assignLazy (reg_h r) ty f hp")
  have d: "m \<noteq> None \<and> map_index hp' m ty = Some f
       \<and> (\<forall>k. k \<noteq> ty \<longrightarrow> map_index hp' m k = map_index hp (reg_h r) k)
       \<and> call ty ctx v hp' m s = f ctx v s
       \<and> (reg_h r = None \<longrightarrow>
            m = Some (next_free hp) \<and> cells hp' (next_free hp) = [ty \<mapsto> f])"
    using assignLazy_not_nil [OF a] assignLazy_lookup [OF a] assignLazy_fresh [of ty f hp m hp'] a
    by (auto simp: call_exact)
  have dispatch: "(case registerDispatch r ty f hp of
      (r', hp') \<Rightarrow>
        reg_h r' \<noteq> None
        \<and> map_index hp' (reg_h r') ty = Some f
        \<and> (\<forall>k. k \<noteq> ty \<longrightarrow> map_index hp' (reg_h r') k = map_index hp (reg_h r) k)
        \<and> call ty ctx v hp' (reg_h r') s = f ctx v s
        \<and> (reg_h r = None \<longrightarrow>
             reg_h r' = Some (next_free hp) \<and> cells hp' (next_free hp) = [ty \<mapsto> f]))"
    using d by (simp add: registerDispatch_assignLazy a)
  obtain out fr' fhp' where b: "registerFactory fr key g fhp = (out, fr', fhp')"
    by (cases "registerFactory fr key g fhp")
  have nn: "factories fr' \<noteq> None"
    and fresh: "factories fr = None \<longrightarrow> factories fr' = Some (next_free fhp)"
    using registerFactory_not_nil [OF b] by simp_all
  have ret: "out = Returns ()" if "hashable key"
    using that b by (rule registerFactory_returns)
  have found: "getFactory (MutableF fr') fhp' key = Returns (Some g)
      \<and> (\<forall>k. k \<noteq> key \<longrightarrow>
           getFactory (MutableF fr') fhp' k = getFactory (MutableF fr) fhp k)
      \<and> CreateType fhp' (MutableF fr') key data s2 = g data s2
      \<and> (factories fr = None \<longrightarrow> cells fhp' (next_free fhp) = [key \<mapsto> g])"
    if h: "hashable key" and e: "selfEqual key"
  proof -
    have lk: "map_index fhp' (factories fr') k
        = (if k = key then Some g else map_index fhp (factories fr) k)" for k
      using registerFactory_lookup [OF h e b] .
    have g1: "getFactory (MutableF fr') fhp' key = Returns (Some g)"
      using h e lk [of key] by (simp add: any_map_index_def)
    have g2: "getFactory (MutableF fr') fhp' k = getFactory (MutableF fr) fhp k"
      if "k \<noteq> key" for k
      using that lk [of k] by (simp add: any_map_index_def)
    have g3: "CreateType fhp' (MutableF fr') key data s2 = g data s2"
      using g1 by (simp add: CreateType_def)
    have g4: "cells fhp' (next_free fhp) = [key \<mapsto> g]" if "factories fr = None"
      using that b h e
      by (auto simp: registerFactory_def any_map_assign_def heap_alloc_def map_assign_def)
    show ?thesis using g1 g2 g3 g4 by blast
  qed
  show ?thesis
    using dispatch nn fresh ret found by (simp add: b)
qed

theorem register_always_succeeds_witness:
  "(case registerDispatch \<lparr>reg_h = None\<rparr> (Some testEvent)
           (wrapTypedHandler testEvent (sayingHandler ''handler'')) emptyStore of
      (r', hp') \<Rightarrow>
        reg_h r' = Some 0
        \<and> Dispatch hp' (Mutable r') () (Data testEvent ''test'') [] [] = (Returns None, [''handler'']))
   \<and> hashable (Data stringT ''event'') \<and> selfEqual (Data stringT ''event'')
   \<and> (case registerFactory \<lparr>factories = None\<rparr> (Data stringT ''event'')
           (constFactory ''first'') emptyStore of
      (out, fr', fhp') \<Rightarrow>
        out = Returns ()
        \<and> factories fr' = Some 0
        \<and> CreateType fhp' (MutableF fr') (Data stringT ''event'') (Data bytesT []) ()
            = (Returns (Data userCreated ''first'', None), ()))"
  using register_always_succeeds [where r = "\<lparr>reg_h = None\<rparr>" and ty = "Some testEvent"
      and f = "wrapTypedHandler testEvent (sayingHandler ''handler'')" and hp = emptyStore
      and ctx = "()" and v = "Data testEvent ''test''" and s = "[]"
      and fr = "\<lparr>factories = None\<rparr>" and key = "Data stringT ''event''"
      and g = "constFactory ''first''" and fhp = emptyStore and data = "Data bytesT []"
      and ?s2.0 = "()"]
  by (simp add: store_defs run_defs type_defs case_prod_beta)

text \<open>
  As the claim is written, \<open>registerFactory\<close> succeeds whatever it is given and the
  registration is found afterwards. Under a key of type \<^verbatim>\<open>[]byte\<close> the map write
  panics; under a NaN of type \<^verbatim>\<open>float64\<close> it returns, and the next lookup under that
  key finds nothing.
\<close>

theorem registerFactory_key_counterexample:
  "(case registerFactory \<lparr>factories = None\<rparr> (Data bytesT ''key'')
           (constFactory ''made'' :: unit factoryFuncAny) emptyStore of
      (out, fr', fhp') \<Rightarrow> out = Panics HashOfUnhashableType)
   \<and> (case registerFactory \<lparr>factories = None\<rparr> (Irregular float64T HoldsNaN ''NaN'')
           (constFactory ''made'' :: unit factoryFuncAny) emptyStore of
      (out, fr', fhp') \<Rightarrow>
        out = Returns ()
        \<and> getFactory (MutableF fr') fhp' (Irregular float64T HoldsNaN ''NaN'') = Returns None)"
  by (simp add: store_defs run_defs type_defs case_prod_beta)

text \<open>
  C7. Registering twice under one type identity keeps the second entry only: a dispatch
  of a value of that type runs the second handler. Registering two constructors under
  one factory key that the runtime can hash and that is equal to itself keeps the second
  only: both registrations return, and creating under that key narrows the data to the
  second constructor's input type and runs the second constructor. The first entry does
  not occur in the result.
\<close>

theorem last_write_wins:
  "(case registerDispatch r ty f1 hp of
      (r1, hp1) \<Rightarrow>
        (case registerDispatch r1 ty f2 hp1 of
           (r2, hp2) \<Rightarrow>
             map_index hp2 (reg_h r2) ty = Some f2
             \<and> (typeOf v = ty \<longrightarrow> Dispatch hp2 (Mutable r2) ctx v [] s = f2 ctx v s)))
   \<and> (case RegisterDispatch T r H1 mws1 hp of
      (r1, hp1) \<Rightarrow>
        (case RegisterDispatch T r1 H2 mws2 hp1 of
           (r2, hp2) \<Rightarrow>
             (typeOf v = Some T \<longrightarrow>
                Dispatch hp2 (Mutable r2) ctx v [] s = applyMiddleware H2 mws2 ctx v s)))
   \<and> (case RegisterFactory D1 fr key c1 fhp of
      (o1, fr1, fhp1) \<Rightarrow>
        (case RegisterFactory D2 fr1 key c2 fhp1 of
           (o2, fr2, fhp2) \<Rightarrow>
             (hashable key \<and> selfEqual key \<longrightarrow>
                o1 = Returns () \<and> o2 = Returns ()
                \<and> (\<forall>d. typeAssert D2 data = Some d \<longrightarrow>
                     CreateType fhp2 (MutableF fr2) key data s2 = c2 d s2)
                \<and> (typeAssert D2 data = None \<longrightarrow>
                     (\<exists>e. CreateType fhp2 (MutableF fr2) key data s2
                        = (Returns (Nil, Some (ErrDataTypeNotSupported e (typeOf data))), s2))))))
   \<and> (case registerFactory fr key g1 fhp of
      (o1, fr1, fhp1) \<Rightarrow>
        (case registerFactory fr1 key g2 fhp1 of
           (o2, fr2, fhp2) \<Rightarrow>
             (hashable key \<and> selfEqual key \<longrightarrow>
                getFactory (MutableF fr2) fhp2 key = Returns (Some g2)
                \<and> CreateType fhp2 (MutableF fr2) key data s2 = g2 data s2)))"
proof -
  have a: "map_index hp2 (reg_h r2) ty = Some f2
         \<and> (typeOf v = ty \<longrightarrow> Dispatch hp2 (Mutable r2) ctx v [] s = f2 ctx v s)"
    if "registerDispatch r1 ty f2 hp1 = (r2, hp2)" for r1 hp1 r2 hp2 ty f2
    using registerDispatch_lookup [OF that, of ty]
    by (auto simp: Dispatch_no_middleware call_exact)
  have b: "typeOf v = Some T \<longrightarrow>
      Dispatch hp2 (Mutable r2) ctx v [] s = applyMiddleware H2 mws2 ctx v s"
    if "RegisterDispatch T r1 H2 mws2 hp1 = (r2, hp2)" for r1 hp1 r2 hp2
    using RegisterDispatch_entry [OF that]
    by (auto simp: Dispatch_no_middleware call_exact wrapTypedHandler_def typeAssert_exact
        applyMiddleware_foldr simp del: typeAssert.simps)
  have c: "getFactory (MutableF fr2) fhp2 key = Returns (Some g)
         \<and> CreateType fhp2 (MutableF fr2) key data s2 = g data s2"
    if "hashable key" "selfEqual key" "registerFactory fr1 key g fhp1 = (o2, fr2, fhp2)"
    for fr1 fhp1 o2 fr2 fhp2 g
    using registerFactory_lookup [OF that, of key] that(1,2)
    by (simp add: CreateType_def any_map_index_def)
  have pub: "o1 = Returns () \<and> o2 = Returns ()
      \<and> (\<forall>d. typeAssert D2 data = Some d \<longrightarrow>
           CreateType fhp2 (MutableF fr2) key data s2 = c2 d s2)
      \<and> (typeAssert D2 data = None \<longrightarrow>
           (\<exists>e. CreateType fhp2 (MutableF fr2) key data s2
              = (Returns (Nil, Some (ErrDataTypeNotSupported e (typeOf data))), s2)))"
    if h: "hashable key" and e: "selfEqual key"
      and r1: "RegisterFactory D1 fr key c1 fhp = (o1, fr1, fhp1)"
      and r2: "RegisterFactory D2 fr1 key c2 fhp1 = (o2, fr2, fhp2)"
    for o1 fr1 fhp1 o2 fr2 fhp2
  proof -
    have "o1 = Returns ()"
      using r1 h by (auto simp: RegisterFactory_def dest: registerFactory_returns)
    moreover have "o2 = Returns ()"
      using r2 h by (auto simp: RegisterFactory_def dest: registerFactory_returns)
    moreover have "CreateType fhp2 (MutableF fr2) key data s2 =
        (case typeAssert D2 data of
           None \<Rightarrow>
             (Returns (Nil, Some (ErrDataTypeNotSupported (typeOf (zeroValue D2)) (typeOf data))),
              s2)
         | Some d \<Rightarrow> c2 d s2)"
      using c [OF h e r2 [unfolded RegisterFactory_def]] by simp
    ultimately show ?thesis by (auto simp del: typeAssert.simps)
  qed
  obtain rA hpA where A: "registerDispatch r ty f1 hp = (rA, hpA)"
    by (cases "registerDispatch r ty f1 hp")
  obtain rB hpB where B: "registerDispatch rA ty f2 hpA = (rB, hpB)"
    by (cases "registerDispatch rA ty f2 hpA")
  obtain rC hpC where C: "RegisterDispatch T r H1 mws1 hp = (rC, hpC)"
    by (cases "RegisterDispatch T r H1 mws1 hp")
  obtain rD hpD where D: "RegisterDispatch T rC H2 mws2 hpC = (rD, hpD)"
    by (cases "RegisterDispatch T rC H2 mws2 hpC")
  obtain o1 fr1 fhp1 where E: "RegisterFactory D1 fr key c1 fhp = (o1, fr1, fhp1)"
    by (cases "RegisterFactory D1 fr key c1 fhp")
  obtain o2 fr2 fhp2 where F: "RegisterFactory D2 fr1 key c2 fhp1 = (o2, fr2, fhp2)"
    by (cases "RegisterFactory D2 fr1 key c2 fhp1")
  obtain p1 gr1 ghp1 where G: "registerFactory fr key g1 fhp = (p1, gr1, ghp1)"
    by (cases "registerFactory fr key g1 fhp")
  obtain p2 gr2 ghp2 where H: "registerFactory gr1 key g2 ghp1 = (p2, gr2, ghp2)"
    by (cases "registerFactory gr1 key g2 ghp1")
  show ?thesis
    using a [OF B] b [OF D] pub [OF _ _ E F] c [OF _ _ H]
    by (simp add: A B C D E F G H del: typeAssert.simps)
qed

theorem last_write_wins_witness:
  "(case RegisterDispatch stringT \<lparr>reg_h = None\<rparr> (sayingHandler ''first'') [] emptyStore of
      (r1, hp1) \<Rightarrow>
        (case RegisterDispatch stringT r1 (sayingHandler ''second'') [] hp1 of
           (r2, hp2) \<Rightarrow>
             Dispatch hp2 (Mutable r2) () (Data stringT ''hello'') [] []
               = (Returns None, [''second''])))
   \<and> hashable (Data stringT ''event'') \<and> selfEqual (Data stringT ''event'')
   \<and> (case RegisterFactory bytesT \<lparr>factories = None\<rparr> (Data stringT ''event'')
            (constFactory ''first'') emptyStore of
      (o1, fr1, fhp1) \<Rightarrow>
        (case RegisterFactory bytesT fr1 (Data stringT ''event'') (constFactory ''second'')
                fhp1 of
           (o2, fr2, fhp2) \<Rightarrow>
             o1 = Returns () \<and> o2 = Returns ()
             \<and> CreateType fhp2 (MutableF fr2) (Data stringT ''event'') (Data bytesT []) ()
               = (Returns (Data userCreated ''second'', None), ())))"
  using last_write_wins [where r = "\<lparr>reg_h = None\<rparr>" and T = stringT
      and ty = "Some stringT" and ?f1.0 = "wrapTypedHandler stringT (sayingHandler ''first'')"
      and ?f2.0 = "wrapTypedHandler stringT (sayingHandler ''second'')"
      and ?H1.0 = "sayingHandler ''first''" and ?mws1.0 = "[]"
      and ?H2.0 = "sayingHandler ''second''" and ?mws2.0 = "[]" and hp = emptyStore
      and v = "Data stringT ''hello''" and ctx = "()" and s = "[]"
      and fr = "\<lparr>factories = None\<rparr>" and key = "Data stringT ''event''"
      and ?D1.0 = bytesT and ?D2.0 = bytesT
      and ?c1.0 = "constFactory ''first''" and ?c2.0 = "constFactory ''second''"
      and ?g1.0 = "constFactory ''first''" and ?g2.0 = "constFactory ''second''"
      and fhp = emptyStore and data = "Data bytesT []" and ?s2.0 = "()"]
  by (simp add: store_defs run_defs type_defs case_prod_beta)

text \<open>
  As the claim is written, under every factory key the second of two constructors is the
  one \<open>CreateType\<close> uses, and no error is raised. Under a NaN of type \<^verbatim>\<open>float64\<close>
  both registrations return and creating under that key finds no factory at all; under a
  key of type \<^verbatim>\<open>[]byte\<close> the first registration panics.
\<close>

theorem last_write_key_counterexample:
  "(case RegisterFactory bytesT \<lparr>factories = None\<rparr> (Irregular float64T HoldsNaN ''NaN'')
            (constFactory ''first'' :: unit factoryFuncAny) emptyStore of
      (o1, fr1, fhp1) \<Rightarrow>
        (case RegisterFactory bytesT fr1 (Irregular float64T HoldsNaN ''NaN'')
                (constFactory ''second'') fhp1 of
           (o2, fr2, fhp2) \<Rightarrow>
             o1 = Returns () \<and> o2 = Returns ()
             \<and> CreateType fhp2 (MutableF fr2) (Irregular float64T HoldsNaN ''NaN'')
                 (Data bytesT []) ()
               = (Returns (Nil, Some (ErrFactoryNotFound (Irregular float64T HoldsNaN ''NaN''))),
                  ())))
   \<and> (case RegisterFactory bytesT \<lparr>factories = None\<rparr> (Data bytesT ''key'')
            (constFactory ''first'' :: unit factoryFuncAny) emptyStore of
      (o1, fr1, fhp1) \<Rightarrow> o1 = Panics HashOfUnhashableType)"
  by (simp add: store_defs run_defs type_defs case_prod_beta)

section \<open>Sealing\<close>




section \<open>Pointer fallback\<close>




section \<open>The guard of a handler entry\<close>

text \<open>
  C10. Take an entry that \<open>RegisterDispatch\<close> made for \<open>T\<close> and a well-formed
  dispatched value. A value whose type is \<open>T\<close> passes the entry's assertion (and
  \<open>T\<close> is then no interface type), so the typed chain runs on it. When \<open>T\<close> is not
  an interface type and pointer-to-\<open>T\<close> has no entry, a pointer that is not nil
  reaches the entry as a value of dynamic type exactly \<open>T\<close>, the assertion passes
  and the typed chain runs on it. When \<open>T\<close> is an interface type, the entry's
  "expected, got" branch is taken exactly when the variable behind the pointer holds the
  nil interface.
\<close>

theorem typed_entry_guard:
  assumes "map_index hp (dispatcher_h disp) (Some T) = Some (wrapTypedHandler T F)"
    and "wfVal v"
  shows "(typeOf v = Some T \<longrightarrow>
            (\<forall>ms. T \<noteq> Iface ms) \<and> typeAssert T v = Some v
            \<and> Dispatch hp disp ctx v [] s = F ctx v s)
       \<and> ((\<forall>ms. T \<noteq> Iface ms) \<and> v = Pointer T a c
            \<and> map_index hp (dispatcher_h disp) (Some (Ptr T)) = None \<longrightarrow>
            typeOf c = Some T \<and> typeAssert T c = Some c
            \<and> Dispatch hp disp ctx v [] s = F ctx c s)
       \<and> (T = Iface ms \<and> v = Pointer T a c
            \<and> map_index hp (dispatcher_h disp) (Some (Ptr T)) = None \<longrightarrow>
            Dispatch hp disp ctx v [] s =
              (if c = Nil then (Returns (Some (ErrUnexpectedType None None)), s)
               else F ctx c s))
       \<and> (case RegisterDispatch T r H mws hp0 of
            (r', hp') \<Rightarrow>
              map_index hp' (dispatcher_h (Mutable r')) (Some T)
                = Some (wrapTypedHandler T (applyMiddleware H mws)))"
proof -
  let ?h = "dispatcher_h disp"
  have exact: "(\<forall>ms. T \<noteq> Iface ms) \<and> typeAssert T v = Some v
      \<and> Dispatch hp disp ctx v [] s = F ctx v s"
    if t: "typeOf v = Some T"
  proof -
    have "\<forall>ms. T \<noteq> Iface ms"
      using t assms(2) by (cases v) (auto split: gotype.splits)
    moreover have "typeAssert T v = Some v"
      using t by (rule typeAssert_exact)
    moreover have "Dispatch hp disp ctx v [] s = F ctx v s"
      using assms(1) t typeAssert_exact [OF t]
      by (simp add: Dispatch_no_middleware call_exact wrapTypedHandler_def del: typeAssert.simps)
    ultimately show ?thesis by blast
  qed
  have fb: "Dispatch hp disp ctx v [] s = wrapTypedHandler T F ctx c s \<and> holds T c"
    if "v = Pointer T a c" "map_index hp ?h (Some (Ptr T)) = None"
    using that assms by (simp add: Dispatch_no_middleware call_fallback)
  have conc: "typeOf c = Some T \<and> typeAssert T c = Some c
      \<and> Dispatch hp disp ctx v [] s = F ctx c s"
    if n: "\<forall>ms. T \<noteq> Iface ms" and p: "v = Pointer T a c"
      and m: "map_index hp ?h (Some (Ptr T)) = None"
  proof -
    from fb [OF p m] have h: "holds T c" and d: "Dispatch hp disp ctx v [] s = wrapTypedHandler T F ctx c s"
      by simp_all
    have tc: "typeOf c = Some T" using holds_concrete [OF h n] .
    have ta: "typeAssert T c = Some c" using tc by (rule typeAssert_exact)
    show ?thesis using tc ta d by (simp add: wrapTypedHandler_def del: typeAssert.simps)
  qed
  have iface: "Dispatch hp disp ctx v [] s =
      (if c = Nil then (Returns (Some (ErrUnexpectedType None None)), s) else F ctx c s)"
    if i: "T = Iface ms" and p: "v = Pointer T a c"
      and m: "map_index hp ?h (Some (Ptr T)) = None"
  proof (cases "c = Nil")
    case True
    then show ?thesis using fb [OF p m] i by (simp add: wrapTypedHandler_def)
  next
    case False
    from fb [OF p m] have h: "holds T c" and d: "Dispatch hp disp ctx v [] s = wrapTypedHandler T F ctx c s"
      by simp_all
    show ?thesis using holds_typeAssert [OF h False] d False
      by (simp add: wrapTypedHandler_def del: typeAssert.simps)
  qed
  have reg: "(case RegisterDispatch T r H mws hp0 of
            (r', hp') \<Rightarrow>
              map_index hp' (dispatcher_h (Mutable r')) (Some T)
                = Some (wrapTypedHandler T (applyMiddleware H mws)))"
    using RegisterDispatch_entry [of T r H mws hp0]
    by (auto simp: applyMiddleware_foldr split: prod.splits)
  show ?thesis using exact conc iface reg by blast
qed

theorem typed_entry_guard_witness:
  "(case RegisterDispatch testEvent \<lparr>reg_h = None\<rparr> receivedName [] emptyStore of
      (reg, hp) \<Rightarrow>
        wfVal (Pointer testEvent 7 (Data testEvent ''pointer''))
        \<and> typeAssert testEvent (Data testEvent ''pointer'') = Some (Data testEvent ''pointer'')
        \<and> Dispatch hp (Mutable reg) () (Pointer testEvent 7 (Data testEvent ''pointer'')) [] []
            = (Returns None, [''pointer''])
        \<and> wfVal (Data testEvent ''value'')
        \<and> Dispatch hp (Mutable reg) () (Data testEvent ''value'') [] []
            = (Returns None, [''value'']))"
proof -
  let ?a = "RegisterDispatch testEvent \<lparr>reg_h = None\<rparr> receivedName [] emptyStore"
  have e: "map_index (snd ?a) (dispatcher_h (Mutable (fst ?a))) (Some testEvent)
      = Some (wrapTypedHandler testEvent receivedName)"
    by (simp add: store_defs applyMiddleware_def)
  have w1: "wfVal (Pointer testEvent 7 (Data testEvent ''pointer''))"
    by (simp add: type_defs)
  have w2: "wfVal (Data testEvent ''value'')"
    by (simp add: type_defs)
  have n: "map_index (snd ?a) (dispatcher_h (Mutable (fst ?a))) (Some (Ptr testEvent)) = None"
    by (simp add: store_defs type_defs)
  have c: "\<forall>ms. testEvent \<noteq> Iface ms" by (simp add: type_defs)
  show ?thesis
    using typed_entry_guard [OF e w1, where a = 7 and c = "Data testEvent ''pointer''"
        and ctx = "()" and s = "[]"]
      typed_entry_guard [OF e w2, where ctx = "()" and s = "[]"] w1 w2 n c
    by (simp add: case_prod_beta receivedName_def store_defs run_defs type_defs)
qed

text \<open>
  As the claim is written, the "expected, got" branch cannot be reached through
  \<open>Dispatch\<close>. With a handler registered for \<^verbatim>\<open>any\<close>, dispatching a pointer (not
  nil) to an \<^verbatim>\<open>any\<close> variable that holds nil resolves to that entry by the fallback
  and takes the branch; the handler does not run.
\<close>

theorem nil_interface_guard_counterexample:
  "(case RegisterDispatch anyT \<lparr>reg_h = None\<rparr> receivedName [] emptyStore of
      (reg, hp) \<Rightarrow>
        wfVal (Pointer anyT 7 Nil)
        \<and> map_index hp (reg_h reg) (Some (Ptr anyT)) = None
        \<and> map_index hp (reg_h reg) (Some anyT) = Some (wrapTypedHandler anyT receivedName)
        \<and> Dispatch hp (Mutable reg) () (Pointer anyT 7 Nil) [] []
            = (Returns (Some (ErrUnexpectedType None None)), []))"
  by (simp add: store_defs run_defs type_defs case_prod_beta)

section \<open>Creating values\<close>




section \<open>Dispatches that panic\<close>

text \<open>
  C2. Two dispatches end in a panic and not in an error value: the nil interface on a
  new registry (the call of \<^verbatim>\<open>typ.Kind()\<close> on the nil \<^verbatim>\<open>reflect.Type\<close>), and the nil
  pointer of type \<^verbatim>\<open>*testEvent\<close> on a sealed registry that has a handler for
  \<^verbatim>\<open>testEvent\<close> (\<^verbatim>\<open>Interface()\<close> on the zero \<^verbatim>\<open>reflect.Value\<close>).
\<close>

theorem Dispatch_panics:
  "(case NewDispatchRegistry emptyStore of
      (reg, hp) \<Rightarrow>
        Dispatch hp (Mutable reg) () Nil [] ([] :: string list)
          = (Panics NilPointerDereference, []))
   \<and> (case RegisterDispatch testEvent \<lparr>reg_h = None\<rparr> receivedName [] emptyStore of
      (reg, hp) \<Rightarrow>
        (case Seal reg hp of
           (sealed, hp') \<Rightarrow>
             Dispatch hp' (Sealed sealed) () (NilPtr testEvent) [] []
               = (Panics ReflectInterfaceOfZeroValue, [])))"
  by (simp add: store_defs run_defs type_defs case_prod_beta)

text \<open>
  A value that has a type with no entry, neither exact nor through the fallback, gets
  \<open>ErrHandlerNotFound\<close> for that type, and the world is left as it was.
\<close>

lemma Dispatch_unknown_type:
  assumes "typeOf v = Some t" "map_index hp (dispatcher_h disp) (Some t) = None"
    "\<forall>e. t = Ptr e \<longrightarrow> map_index hp (dispatcher_h disp) (Some e) = None"
  shows "Dispatch hp disp ctx v [] s = (Returns (Some (ErrHandlerNotFound (Some t))), s)"
  using assms by (simp add: Dispatch_no_middleware call_not_found)

text \<open>
  C8. The nil interface has no entry under its type identity (the nil
  \<^verbatim>\<open>reflect.Type\<close>), and no fallback; dispatching it does not return
  \<open>ErrHandlerNotFound\<close>: it panics.
\<close>

theorem Dispatch_nil_not_HandlerNotFound:
  "(case RegisterDispatch testEvent \<lparr>reg_h = None\<rparr> receivedName [] emptyStore of
      (reg, hp) \<Rightarrow>
        map_index hp (reg_h reg) (typeOf Nil) = None
        \<and> Dispatch hp (Mutable reg) () Nil [] [] = (Panics NilPointerDereference, [])
        \<and> Dispatch hp (Mutable reg) () Nil [] []
            \<noteq> (Returns (Some (ErrHandlerNotFound (typeOf Nil))), []))"
  by (simp add: store_defs run_defs type_defs case_prod_beta)

end
